theory Spec2Isabelle
  imports Complex_Main
begin

section \<open>Data model of the consistency harness (test/onnx/test\_op\_consistancy.py)\<close>

text \<open>
  The dtypes the harness tests: \<open>SUPPORTED_DTYPES\<close>, in the order of the source.
  A constructor \<open>torch_X\<close> stands for \<open>torch.X\<close>.
\<close>

datatype dtype =
    torch_bool
  | torch_uint8 | torch_int8 | torch_int16 | torch_int32 | torch_int64
  | torch_float16 | torch_float32 | torch_float64 | torch_bfloat16
  | torch_qint8 | torch_quint8
  | torch_complex32 | torch_complex64 | torch_complex128

definition SUPPORTED_DTYPES :: "dtype list" where
  "SUPPORTED_DTYPES =
     [torch_bool,
      torch_uint8, torch_int8, torch_int16, torch_int32, torch_int64,
      torch_float16, torch_float32, torch_float64, torch_bfloat16,
      torch_qint8, torch_quint8,
      torch_complex32, torch_complex64, torch_complex128]"

definition BOOL_TYPES :: "dtype list" where
  "BOOL_TYPES = [torch_bool]"

definition INT_TYPES :: "dtype list" where
  "INT_TYPES = [torch_int8, torch_int16, torch_int32, torch_int64, torch_uint8]"

definition QINT_TYPES :: "dtype list" where
  "QINT_TYPES = [torch_qint8, torch_quint8]"

definition FLOAT_TYPES :: "dtype list" where
  "FLOAT_TYPES = [torch_float16, torch_float32, torch_float64, torch_bfloat16]"

definition COMPLEX_TYPES :: "dtype list" where
  "COMPLEX_TYPES = [torch_complex32, torch_complex64, torch_complex128]"

text \<open>
  The two decorators a rule can carry: \<open>unittest.expectedFailure\<close> and
  \<open>unittest.skip(reason)\<close>.
\<close>

datatype decorator = unittest_expectedFailure | unittest_skip string

text \<open>The named tuple \<open>DecorateMeta\<close>: one declared skip or xfail rule.\<close>

record DecorateMeta =
  op_name :: string
  variant_name :: string
  decorator :: decorator
  device_type :: "string option"
  dtypes :: "dtype list option"
  reason :: string

text \<open>
  \<open>xfail\<close> and \<open>skip\<close> build a rule; the keyword arguments of the source
  (\<open>variant_name = ""\<close>, \<open>device_type = None\<close>, \<open>dtypes = None\<close>,
  \<open>reason = "unspecified"\<close>) are explicit arguments here.
\<close>

definition xfail :: "string \<Rightarrow> string \<Rightarrow> string option \<Rightarrow> dtype list option \<Rightarrow> string \<Rightarrow> DecorateMeta" where
  "xfail opn variant dev dts why =
     \<lparr>DecorateMeta.op_name = opn, variant_name = variant, decorator = unittest_expectedFailure,
      device_type = dev, dtypes = dts, reason = why\<rparr>"

definition skip :: "string \<Rightarrow> string \<Rightarrow> string option \<Rightarrow> dtype list option \<Rightarrow> string \<Rightarrow> DecorateMeta" where
  "skip opn variant dev dts why =
     \<lparr>DecorateMeta.op_name = opn, variant_name = variant, decorator = unittest_skip why,
      device_type = dev, dtypes = dts, reason = why\<rparr>"

text \<open>
  An element of \<open>XfailOpset.opsets\<close> is an opset number or a predicate on opset
  numbers (\<open>Union[int, Callable[[int], bool]]\<close>).
\<close>

datatype opset_spec = OpsetInt int | OpsetPred "int \<Rightarrow> bool"

text \<open>
  The dataclass \<open>XfailOpset\<close>. The exception classes a rule may name are a type
  parameter; \<open>None\<close> is the default. Field names shared with \<open>DecorateMeta\<close> are
  written qualified (\<open>XfailOpset.op_name\<close>, \<open>DecorateMeta.op_name\<close>).
\<close>

record 'x XfailOpset =
  op_name :: string
  opsets :: "opset_spec list"
  dtypes :: "dtype list option"
  exception :: "'x option"
  reason :: string

text \<open>
  \<open>XfailOpset._contains_opset\<close>: \<open>any(opset == spec if isinstance(spec, int)
  else spec(opset) for spec in self.opsets)\<close>.
\<close>

definition contains_opset :: "'x XfailOpset \<Rightarrow> int \<Rightarrow> bool" where
  "contains_opset self opset =
     list_ex (\<lambda>opset_spec. case opset_spec of
                 OpsetInt n \<Rightarrow> opset = n
               | OpsetPred p \<Rightarrow> p opset) (opsets self)"

text \<open>\<open>XfailOpset._contains_dtype\<close>: \<open>self.dtypes is None or dtype in self.dtypes\<close>.\<close>

definition contains_dtype :: "'x XfailOpset \<Rightarrow> dtype \<Rightarrow> bool" where
  "contains_dtype self dt =
     (case XfailOpset.dtypes self of None \<Rightarrow> True | Some ds \<Rightarrow> dt \<in> set ds)"

text \<open>\<open>XfailOpset.should_fail\<close>.\<close>

definition should_fail :: "'x XfailOpset \<Rightarrow> int \<Rightarrow> dtype \<Rightarrow> bool" where
  "should_fail self opset dt = (contains_opset self opset \<and> contains_dtype self dt)"

definition opsets_before :: "int \<Rightarrow> int \<Rightarrow> bool" where
  "opsets_before opset = (\<lambda>other_opset. other_opset < opset)"

definition opsets_after :: "int \<Rightarrow> int \<Rightarrow> bool" where
  "opsets_after opset = (\<lambda>other_opset. other_opset > opset)"

subsection \<open>The operator registry and \<open>skip_ops\<close>\<close>

text \<open>
  \<open>opinfo_core.DecorateInfo\<close>, as \<open>skip_ops\<close> constructs it: the decorator, the test
  class name, the test name, and the keyword arguments \<open>device_type\<close> and \<open>dtypes\<close>.
\<close>

record DecorateInfo =
  decorators :: decorator
  cls_name :: string
  test_name :: string
  device_type :: "string option"
  dtypes :: "dtype list option"

text \<open>
  A sample input (\<open>cpu_sample.input\<close>, \<open>.args\<close>, \<open>.kwargs\<close>) and an entry of the
  operator registry, with the attributes the harness reads: \<open>name\<close>,
  \<open>variant_test_name\<close>, \<open>decorators\<close> and \<open>sample_inputs(device, dtype,
  requires_grad)\<close>. Values are of an arbitrary type \<open>'v\<close>.
\<close>

record 'v SampleInput =
  input :: 'v
  args :: "'v list"
  kwargs :: "(string \<times> 'v) list"

record 'v OpInfo =
  name :: string
  variant_test_name :: string
  decorators :: "DecorateInfo list"
  sample_inputs :: "string \<Rightarrow> dtype \<Rightarrow> bool \<Rightarrow> 'v SampleInput list"

text \<open>
  The failed assertion of \<open>skip_ops\<close>, with the rule its message names
  (\<open>"Couldn't find OpInfo for {decorate_meta}"\<close>).
\<close>

datatype suite_error = AssertionError_no_OpInfo DecorateMeta

text \<open>
  \<open>ops_mapping = {(info.name, info.variant_test_name): info for info in all_opinfos}\<close>.
  The dictionary holds references to the registry's objects, which the loop mutates in
  place; the model maps a key to the position of the object in the registry. A later
  entry with the same key replaces an earlier one, as in the dict comprehension.
\<close>

definition ops_mapping :: "'v OpInfo list \<Rightarrow> (string \<times> string) \<rightharpoonup> nat" where
  "ops_mapping all_opinfos =
     fold (\<lambda>i m. m((name (all_opinfos ! i), variant_test_name (all_opinfos ! i)) \<mapsto> i))
          [0 ..< length all_opinfos] Map.empty"

definition new_decorator :: "string \<Rightarrow> string \<Rightarrow> DecorateMeta \<Rightarrow> DecorateInfo" where
  "new_decorator test_case_name base_test_name decorate_meta =
     \<lparr>DecorateInfo.decorators = DecorateMeta.decorator decorate_meta,
      cls_name = test_case_name,
      test_name = base_test_name,
      device_type = DecorateMeta.device_type decorate_meta,
      dtypes = DecorateMeta.dtypes decorate_meta\<rparr>"

text \<open>
  The loop of \<open>skip_ops\<close> over \<open>to_skip\<close>, on the registry as state: the assertion,
  then \<open>opinfo.decorators = tuple(list(opinfo.decorators) + [new_decorator])\<close> on the
  object the key resolves to.
\<close>

fun skip_ops_loop ::
  "((string \<times> string) \<rightharpoonup> nat) \<Rightarrow> string \<Rightarrow> string \<Rightarrow> 'v OpInfo list \<Rightarrow> DecorateMeta list
   \<Rightarrow> suite_error + 'v OpInfo list" where
  "skip_ops_loop mapping test_case_name base_test_name opinfos [] = Inr opinfos"
| "skip_ops_loop mapping test_case_name base_test_name opinfos (decorate_meta # rest) =
     (case mapping (DecorateMeta.op_name decorate_meta, variant_name decorate_meta) of
        None \<Rightarrow> Inl (AssertionError_no_OpInfo decorate_meta)
      | Some i \<Rightarrow>
          skip_ops_loop mapping test_case_name base_test_name
            (opinfos[i := (opinfos ! i)\<lparr>OpInfo.decorators :=
                 OpInfo.decorators (opinfos ! i)
                   @ [new_decorator test_case_name base_test_name decorate_meta]\<rparr>])
            rest)"

text \<open>
  \<open>skip_ops\<close>: the result is the registry after the in-place updates, or the failed
  assertion. The decorator it returns leaves the test function as it is and is not
  modelled.
\<close>

definition skip_ops ::
  "'v OpInfo list \<Rightarrow> string \<Rightarrow> string \<Rightarrow> DecorateMeta list \<Rightarrow> suite_error + 'v OpInfo list" where
  "skip_ops all_opinfos test_case_name base_test_name to_skip =
     skip_ops_loop (ops_mapping all_opinfos) test_case_name base_test_name all_opinfos to_skip"

subsection \<open>The declared tables\<close>

definition MIN_ONNX_OPSET_VERSION :: int where
  "MIN_ONNX_OPSET_VERSION = 9"

text \<open>
  \<open>TESTED_OPSETS = range(MIN_ONNX_OPSET_VERSION, MAX_ONNX_OPSET_VERSION + 1)\<close>; the
  maximum is \<open>_constants.ONNX_MAX_OPSET\<close>, a constant defined outside these files and
  taken as a parameter.
\<close>

definition TESTED_OPSETS :: "int \<Rightarrow> int list" where
  "TESTED_OPSETS MAX_ONNX_OPSET_VERSION = [MIN_ONNX_OPSET_VERSION .. MAX_ONNX_OPSET_VERSION]"

definition ORT_PROVIDERS :: "string list" where
  "ORT_PROVIDERS = [''CPUExecutionProvider'']"

definition ALLOWLIST_OP :: "string list" where
  "ALLOWLIST_OP = [''ceil'', ''sqrt'', ''t'']"

definition EXPECTED_SKIPS_OR_FAILS :: "DecorateMeta list" where
  "EXPECTED_SKIPS_OR_FAILS =
     [xfail ''ceil'' '''' None (Some [torch_bfloat16, torch_float64])
        ''Ceil not implemented for f64 and bf64 in onnx runtime'',
      skip ''ceil'' '''' None (Some (BOOL_TYPES @ INT_TYPES @ QINT_TYPES @ COMPLEX_TYPES))
        ''Not supported by onnx'',
      skip ''sqrt'' '''' None (Some (BOOL_TYPES @ QINT_TYPES @ COMPLEX_TYPES))
        ''Not supported by onnx'',
      xfail ''t'' '''' None (Some ([torch_bfloat16] @ COMPLEX_TYPES))
        ''Transpose not implemented for bf64 in onnx runtime'']"

definition EXPECTED_OPSET_FAILS :: "'x XfailOpset list" where
  "EXPECTED_OPSET_FAILS =
     [\<lparr>XfailOpset.op_name = ''sqrt'',
       opsets = [OpsetPred (opsets_before 13)],
       dtypes = Some [torch_bfloat16],
       exception = None,
       reason = ''sqrt not defined for bf16 before opset 13''\<rparr>]"

subsection \<open>The runner: \<open>TestConsistency.test_output_match\<close>\<close>

text \<open>\<open>SingleOpModel(op, kwargs)\<close>: the operator and the sample's keyword arguments.\<close>

record 'v SingleOpModel =
  operator :: "'v OpInfo"
  kwargs :: "(string \<times> 'v) list"

text \<open>
  The arguments of the call of \<open>verification.verify\<close>, and the calls the body of a
  sub-test makes to its collaborators. In \<open>Call_export\<close> the last argument is
  \<open>keep_initializers_as_inputs\<close>: \<open>None\<close> when the call does not pass it.
\<close>

record 'v verify_args =
  model :: "'v SingleOpModel"
  inputs :: "'v list"
  input_kwargs :: "(string \<times> 'v) list"
  opset_version :: int
  keep_initializers_as_inputs :: bool
  ort_providers :: "string list"
  check_shape :: bool
  check_dtype :: bool
  flatten :: bool

datatype ('v, 'b, 'g) call =
    Call_export "'v SingleOpModel" "'v list" int "bool option"
  | Call_load 'b
  | Call_check_model 'g bool
  | Call_verify "'v verify_args"

text \<open>
  The collaborators, none of them defined in these files: \<open>torch.onnx.export\<close> (writes
  the serialized model into the buffer or raises), \<open>onnx.load\<close>,
  \<open>onnx.checker.check_model(model, full_check)\<close> and \<open>verification.verify\<close> (which
  exports, runs the exported graph with onnxruntime and compares the outputs), and
  whether a raised exception is an instance of the class \<open>assertRaises\<close> expects.
  A raised exception is a value of type \<open>'e\<close>.
\<close>

datatype 'x exception_class = Exception | Declared 'x

record ('v, 'b, 'g, 'e, 'x) collaborators =
  onnx_export :: "'v SingleOpModel \<Rightarrow> 'v list \<Rightarrow> int \<Rightarrow> bool option \<Rightarrow> 'e + 'b"
  onnx_load :: "'b \<Rightarrow> 'e + 'g"
  check_model :: "'g \<Rightarrow> bool \<Rightarrow> 'e option"
  verify :: "'v verify_args \<Rightarrow> 'e option"
  isinstance :: "'e \<Rightarrow> 'x exception_class \<Rightarrow> bool"

text \<open>
  The block under \<open>with context_manager:\<close>: the calls made, in order, and the
  exception that left the block, if any.
\<close>

definition run_the_test ::
  "('v, 'b, 'g, 'e, 'x) collaborators \<Rightarrow> 'v SingleOpModel \<Rightarrow> 'v list \<Rightarrow> int \<Rightarrow> dtype
   \<Rightarrow> ('v, 'b, 'g) call list \<times> 'e option" where
  "run_the_test c m ins opset dt =
     (if dt = torch_bfloat16 then
        (case onnx_export c m ins opset None of
           Inl e \<Rightarrow> ([Call_export m ins opset None], Some e)
         | Inr model_buffer \<Rightarrow>
             (case onnx_load c model_buffer of
                Inl e \<Rightarrow> ([Call_export m ins opset None, Call_load model_buffer], Some e)
              | Inr onnx_model \<Rightarrow>
                  ([Call_export m ins opset None, Call_load model_buffer,
                    Call_check_model onnx_model True],
                   check_model c onnx_model True)))
      else
        (let a = \<lparr>model = m, inputs = ins, input_kwargs = [], opset_version = opset,
                  keep_initializers_as_inputs = True, ort_providers = ORT_PROVIDERS,
                  check_shape = True, check_dtype = True, flatten = True\<rparr>
         in ([Call_verify a], verify c a)))"

text \<open>
  \<open>expected_opset_fails_name_mapping = {fail.op_name: fail for fail in
  EXPECTED_OPSET_FAILS}\<close>, and the choice of the context manager for a sub-test.
\<close>

definition expected_opset_fails_name_mapping :: "'x XfailOpset list \<Rightarrow> string \<rightharpoonup> 'x XfailOpset" where
  "expected_opset_fails_name_mapping fails =
     fold (\<lambda>fail m. m(XfailOpset.op_name fail \<mapsto> fail)) fails Map.empty"

datatype 'x context_manager = assertRaises "'x exception_class" | nullcontext

definition context_manager :: "'x XfailOpset list \<Rightarrow> string \<Rightarrow> int \<Rightarrow> dtype \<Rightarrow> 'x context_manager" where
  "context_manager fails opname opset dt =
     (case expected_opset_fails_name_mapping fails opname of
        Some fail \<Rightarrow>
          (if should_fail fail opset dt
           then assertRaises (case exception fail of None \<Rightarrow> Exception | Some x \<Rightarrow> Declared x)
           else nullcontext)
      | None \<Rightarrow> nullcontext)"

text \<open>
  The outcome of a sub-test: it passes, an exception leaves it, or \<open>assertRaises\<close>
  fails because the block raised nothing.
\<close>

datatype 'e outcome = Passed | Raised 'e | Failed_not_raised

definition leave_context ::
  "('v, 'b, 'g, 'e, 'x) collaborators \<Rightarrow> 'x context_manager \<Rightarrow> 'e option \<Rightarrow> 'e outcome" where
  "leave_context c cm raised =
     (case cm of
        nullcontext \<Rightarrow> (case raised of None \<Rightarrow> Passed | Some e \<Rightarrow> Raised e)
      | assertRaises cls \<Rightarrow>
          (case raised of
             None \<Rightarrow> Failed_not_raised
           | Some e \<Rightarrow> if isinstance c e cls then Passed else Raised e))"

text \<open>One iteration of the loop over \<open>itertools.product(samples, TESTED_OPSETS)\<close>.\<close>

definition subtest ::
  "('v, 'b, 'g, 'e, 'x) collaborators \<Rightarrow> 'x XfailOpset list \<Rightarrow> 'v OpInfo \<Rightarrow> dtype
   \<Rightarrow> 'v SampleInput \<Rightarrow> int \<Rightarrow> ('v, 'b, 'g) call list \<times> 'e outcome" where
  "subtest c fails op dt cpu_sample opset =
     (let m = \<lparr>operator = op, kwargs = SampleInput.kwargs cpu_sample\<rparr>;
          cm = context_manager fails (name op) opset dt;
          ins = input cpu_sample # args cpu_sample;
          (calls, raised) = run_the_test c m ins opset dt
      in (calls, leave_context c cm raised))"

text \<open>
  \<open>test_output_match\<close>: the assertion on the device, the allow list, then one sub-test
  for every pair of a sample and a tested opset.
\<close>

datatype ('v, 'b, 'g, 'e) test_result =
    AssertionError_device
  | Skipped string
  | Subtests "(('v, 'b, 'g) call list \<times> 'e outcome) list"

definition test_output_match ::
  "('v, 'b, 'g, 'e, 'x) collaborators \<Rightarrow> 'x XfailOpset list \<Rightarrow> int \<Rightarrow> string \<Rightarrow> dtype \<Rightarrow> 'v OpInfo
   \<Rightarrow> ('v, 'b, 'g, 'e) test_result" where
  "test_output_match c fails max_opset device dt op =
     (if device \<noteq> ''cpu'' then AssertionError_device
      else if name op \<notin> set ALLOWLIST_OP
      then Skipped (CHR 0x27 # name op @ CHR 0x27 # '' is not in the allow list for test on ONNX'')
      else Subtests
             (map (\<lambda>(cpu_sample, opset). subtest c fails op dt cpu_sample opset)
                  (List.product (sample_inputs op device dt False) (TESTED_OPSETS max_opset))))"

text \<open>
  Loading the module: the tables are built, then the class body calls \<open>skip_ops\<close> on
  the registry with \<open>EXPECTED_SKIPS_OR_FAILS\<close>. The opset rules are read only when a
  test runs. The result is the suite (the decorated registry and the opset rules) or
  the failed assertion.
\<close>

record ('v, 'x) suite =
  OPS_DB :: "'v OpInfo list"
  opset_fails :: "'x XfailOpset list"

definition load_module ::
  "'v OpInfo list \<Rightarrow> DecorateMeta list \<Rightarrow> 'x XfailOpset list \<Rightarrow> suite_error + ('v, 'x) suite" where
  "load_module op_db skips_or_fails fails =
     (case skip_ops op_db ''TestConsistency'' ''test_output_match'' skips_or_fails of
        Inl e \<Rightarrow> Inl e
      | Inr db \<Rightarrow> Inr \<lparr>OPS_DB = db, opset_fails = fails\<rparr>)"

text \<open>
  Modelled from the spec: how an attached rule reaches a test
  (\<open>OpInfo.get_decorators\<close> and \<open>DecorateInfo.is_active\<close> of \<open>opinfo_core\<close>, called
  when the device-type tests are instantiated) is not in these files. The spec: a rule
  carries an optional device filter and an optional dtype set, and attaches its effect
  "to a specific (operator, device, dtype) test instance". An entry of
  \<open>opinfo.decorators\<close> is active for a test when the class name and the test name are
  the test's and the two filters admit its device and dtype; the test instance is
  decorated with the decorators of the active entries, in order.
\<close>

definition is_active :: "DecorateInfo \<Rightarrow> string \<Rightarrow> string \<Rightarrow> string \<Rightarrow> dtype \<Rightarrow> bool" where
  "is_active info cls test dev dt =
     (cls_name info = cls \<and> test_name info = test
      \<and> (case DecorateInfo.device_type info of None \<Rightarrow> True | Some d \<Rightarrow> d = dev)
      \<and> (case DecorateInfo.dtypes info of None \<Rightarrow> True | Some ds \<Rightarrow> dt \<in> set ds))"

definition get_decorators :: "'v OpInfo \<Rightarrow> string \<Rightarrow> string \<Rightarrow> string \<Rightarrow> dtype \<Rightarrow> decorator list" where
  "get_decorators op cls test dev dt =
     map DecorateInfo.decorators
       (filter (\<lambda>info. is_active info cls test dev dt) (OpInfo.decorators op))"

text \<open>Whether the filters of a declared rule admit a device and a dtype.\<close>

definition rule_applies :: "DecorateMeta \<Rightarrow> string \<Rightarrow> dtype \<Rightarrow> bool" where
  "rule_applies decorate_meta dev dt =
     ((case DecorateMeta.device_type decorate_meta of None \<Rightarrow> True | Some d \<Rightarrow> d = dev)
      \<and> (case DecorateMeta.dtypes decorate_meta of None \<Rightarrow> True | Some ds \<Rightarrow> dt \<in> set ds))"

subsection \<open>Concrete inputs for evaluating the harness\<close>

definition example_op :: "int OpInfo" where
  "example_op = \<lparr>name = ''sqrt'', variant_test_name = '''', decorators = [],
       sample_inputs = (\<lambda>device dt requires_grad. [\<lparr>input = 4, args = [], kwargs = []\<rparr>])\<rparr>"

definition example_sample :: "int SampleInput" where
  "example_sample = \<lparr>input = 4, args = [], kwargs = []\<rparr>"

definition example_collaborators :: "(int, int, int, string, string) collaborators" where
  "example_collaborators =
     \<lparr>onnx_export = (\<lambda>m ins opset keep. Inr opset),
      onnx_load = (\<lambda>buf. Inr buf),
      check_model = (\<lambda>g full. None),
      verify = (\<lambda>a. None),
      isinstance = (\<lambda>e cls. True)\<rparr>"

definition example_opset_rule :: "string \<Rightarrow> dtype \<Rightarrow> opset_spec \<Rightarrow> string XfailOpset" where
  "example_opset_rule opn dt spec =
     \<lparr>XfailOpset.op_name = opn, opsets = [spec], dtypes = Some [dt], exception = None,
      reason = ''unspecified''\<rparr>"

section \<open>The reference operators (torch/\_refs/special/\_\_init\_\_.py)\<close>

subsection \<open>Declared type promotion\<close>

text \<open>
  The six operators of \<open>__all__\<close>, each with the \<open>type_promotion_kind\<close> its declaration
  passes. \<open>INT_TO_FLOAT\<close> is the only kind of
  \<open>utils.ELEMENTWISE_TYPE_PROMOTION_KIND\<close> these files use.
\<close>

datatype ELEMENTWISE_TYPE_PROMOTION_KIND = INT_TO_FLOAT

definition special_refs :: "(string \<times> ELEMENTWISE_TYPE_PROMOTION_KIND) list" where
  "special_refs =
     [(''i1'', INT_TO_FLOAT), (''i0e'', INT_TO_FLOAT), (''i1e'', INT_TO_FLOAT),
      (''logit'', INT_TO_FLOAT), (''xlog1py'', INT_TO_FLOAT), (''zeta'', INT_TO_FLOAT)]"

text \<open>
  Modelled from the spec: the computation of the result dtype
  (\<open>utils.elementwise_dtypes\<close>, behind \<open>elementwise_type_promotion_wrapper\<close> and
  \<open>_make_elementwise_unary_reference\<close>/\<open>_make_elementwise_binary_reference\<close>) is not
  in these files. The spec's contract for integer-to-float: when all operand dtypes are
  boolean or integer the result is the default floating dtype, otherwise the widest
  floating or complex dtype among the operands; \<open>UnsupportedDtype\<close> when no rule covers
  the combination. "Widest" is read as the largest number of bits in the dtype's name;
  the default floating dtype is a parameter.
\<close>

datatype promotion_error = UnsupportedDtype

fun is_boolean_or_integer :: "dtype \<Rightarrow> bool" where
  "is_boolean_or_integer torch_bool = True"
| "is_boolean_or_integer torch_uint8 = True"
| "is_boolean_or_integer torch_int8 = True"
| "is_boolean_or_integer torch_int16 = True"
| "is_boolean_or_integer torch_int32 = True"
| "is_boolean_or_integer torch_int64 = True"
| "is_boolean_or_integer _ = False"

fun is_floating_or_complex :: "dtype \<Rightarrow> bool" where
  "is_floating_or_complex torch_float16 = True"
| "is_floating_or_complex torch_float32 = True"
| "is_floating_or_complex torch_float64 = True"
| "is_floating_or_complex torch_bfloat16 = True"
| "is_floating_or_complex torch_complex32 = True"
| "is_floating_or_complex torch_complex64 = True"
| "is_floating_or_complex torch_complex128 = True"
| "is_floating_or_complex _ = False"

fun bit_width :: "dtype \<Rightarrow> nat" where
  "bit_width torch_bool = 8"
| "bit_width torch_uint8 = 8"
| "bit_width torch_int8 = 8"
| "bit_width torch_int16 = 16"
| "bit_width torch_int32 = 32"
| "bit_width torch_int64 = 64"
| "bit_width torch_float16 = 16"
| "bit_width torch_float32 = 32"
| "bit_width torch_float64 = 64"
| "bit_width torch_bfloat16 = 16"
| "bit_width torch_qint8 = 8"
| "bit_width torch_quint8 = 8"
| "bit_width torch_complex32 = 32"
| "bit_width torch_complex64 = 64"
| "bit_width torch_complex128 = 128"

fun widest :: "dtype \<Rightarrow> dtype list \<Rightarrow> dtype" where
  "widest best [] = best"
| "widest best (d # ds) = widest (if bit_width best < bit_width d then d else best) ds"

definition promote ::
  "dtype \<Rightarrow> ELEMENTWISE_TYPE_PROMOTION_KIND \<Rightarrow> dtype list \<Rightarrow> promotion_error + dtype" where
  "promote default_float_dtype kind operand_dtypes =
     (case kind of
        INT_TO_FLOAT \<Rightarrow>
          if list_all is_boolean_or_integer operand_dtypes then Inr default_float_dtype
          else (case filter is_floating_or_complex operand_dtypes of
                  [] \<Rightarrow> Inl UnsupportedDtype
                | d # ds \<Rightarrow> Inr (widest d ds)))"

subsection \<open>Values and the primitive operations\<close>

text \<open>
  Modelled from the spec: the primitives (\<open>log\<close>, \<open>log1p\<close>, \<open>clamp\<close>, comparison,
  \<open>where\<close>, \<open>isnan\<close>, the arithmetic of tensors) are not in these files. An element
  of a tensor, and a Python number, is NaN, an infinity or a finite real; the arithmetic
  is that of IEEE 754 on these values with exact results on finite operands: rounding,
  overflow and the sign of zero are not modelled.
\<close>

datatype fl = NaN | NInf | Fin real | PInf

fun isnan :: "fl \<Rightarrow> bool" where
  "isnan NaN = True"
| "isnan _ = False"

text \<open>\<open>==\<close> and \<open><\<close>: false as soon as an operand is NaN.\<close>

fun fl_eq :: "fl \<Rightarrow> fl \<Rightarrow> bool" where
  "fl_eq NaN _ = False"
| "fl_eq _ NaN = False"
| "fl_eq x y = (x = y)"

fun fl_less :: "fl \<Rightarrow> fl \<Rightarrow> bool" where
  "fl_less NaN _ = False"
| "fl_less _ NaN = False"
| "fl_less PInf _ = False"
| "fl_less _ NInf = False"
| "fl_less NInf _ = True"
| "fl_less _ PInf = True"
| "fl_less (Fin a) (Fin b) = (a < b)"

text \<open>The infinity of a sign, NaN for sign zero; the sign of a value.\<close>

definition inf_of_sign :: "real \<Rightarrow> fl" where
  "inf_of_sign s = (if 0 < s then PInf else if s < 0 then NInf else NaN)"

fun sign_of :: "fl \<Rightarrow> real" where
  "sign_of NaN = 0"
| "sign_of NInf = - 1"
| "sign_of PInf = 1"
| "sign_of (Fin a) = sgn a"

fun fl_sub :: "fl \<Rightarrow> fl \<Rightarrow> fl" where
  "fl_sub NaN _ = NaN"
| "fl_sub _ NaN = NaN"
| "fl_sub (Fin a) (Fin b) = Fin (a - b)"
| "fl_sub PInf PInf = NaN"
| "fl_sub NInf NInf = NaN"
| "fl_sub PInf _ = PInf"
| "fl_sub NInf _ = NInf"
| "fl_sub _ PInf = NInf"
| "fl_sub _ NInf = PInf"

fun fl_mul :: "fl \<Rightarrow> fl \<Rightarrow> fl" where
  "fl_mul NaN _ = NaN"
| "fl_mul _ NaN = NaN"
| "fl_mul (Fin a) (Fin b) = Fin (a * b)"
| "fl_mul x y = inf_of_sign (sign_of x * sign_of y)"

fun fl_div :: "fl \<Rightarrow> fl \<Rightarrow> fl" where
  "fl_div NaN _ = NaN"
| "fl_div _ NaN = NaN"
| "fl_div (Fin a) (Fin b) = (if b = 0 then inf_of_sign a else Fin (a / b))"
| "fl_div (Fin a) _ = Fin 0"
| "fl_div x (Fin b) = inf_of_sign (sign_of x * (if 0 \<le> b then 1 else - 1))"
| "fl_div _ _ = NaN"

fun fl_log :: "fl \<Rightarrow> fl" where
  "fl_log NaN = NaN"
| "fl_log NInf = NaN"
| "fl_log PInf = PInf"
| "fl_log (Fin a) = (if a < 0 then NaN else if a = 0 then NInf else Fin (ln a))"

fun fl_log1p :: "fl \<Rightarrow> fl" where
  "fl_log1p NaN = NaN"
| "fl_log1p NInf = NaN"
| "fl_log1p PInf = PInf"
| "fl_log1p (Fin a) = (if a < - 1 then NaN else if a = - 1 then NInf else Fin (ln (1 + a)))"

text \<open>
  Modelled from the spec: \<open>clamp(x, lo, hi)\<close> "returns \<open>lo\<close> if \<open>x<lo\<close>, \<open>hi\<close> if
  \<open>x>hi\<close>, else \<open>x\<close>".
\<close>

definition clamp :: "fl \<Rightarrow> fl \<Rightarrow> fl \<Rightarrow> fl" where
  "clamp x lo hi = (if fl_less x lo then lo else if fl_less hi x then hi else x)"

subsection \<open>Tensors and elementwise operations\<close>

text \<open>
  A structured value: its shape and its elements by position (a position is a list of
  indices, one for each dimension), and for a tensor its dtype and its device. A bare
  scalar is a \<open>Number\<close>.
\<close>

datatype device = cpu | cuda nat

record 'e array =
  shape :: "nat list"
  data :: "nat list \<Rightarrow> 'e"

record tensor = "fl array" +
  dtype :: dtype
  device :: device

datatype operand = Number fl | TensorLike tensor

text \<open>
  Modelled from the spec: \<open>utils.is_cpu_scalar_tensor\<close>, \<open>prims.scalar_tensor\<close> and
  \<open>prims.device_put\<close> are not in these files. A scalar tensor has no dimension; a
  number becomes a scalar tensor of the dtype and device asked for, with the number as
  its element (the conversion of the number to the dtype is not modelled);
  \<open>device_put\<close> changes the device alone.
\<close>

definition is_cpu_scalar_tensor :: "tensor \<Rightarrow> bool" where
  "is_cpu_scalar_tensor a = (length (shape a) = 0 \<and> device a = cpu)"

definition scalar_tensor :: "fl \<Rightarrow> dtype \<Rightarrow> device \<Rightarrow> tensor" where
  "scalar_tensor a dt dev = \<lparr>shape = [], data = (\<lambda>idx. a), dtype = dt, device = dev\<rparr>"

definition device_put :: "tensor \<Rightarrow> device \<Rightarrow> tensor" where
  "device_put a dev = a\<lparr>device := dev\<rparr>"

text \<open>
  Modelled from the spec: "standard elementwise semantics, broadcasting operand
  shapes". Two shapes are aligned at their last dimension; two sizes agree when they
  are equal or one of them is 1. A position of the result reads, in an operand, the
  position with the operand's own dimensions and index 0 in every dimension of size 1.
\<close>

fun broadcast_rev :: "nat list \<Rightarrow> nat list \<Rightarrow> nat list option" where
  "broadcast_rev [] ys = Some ys"
| "broadcast_rev xs [] = Some xs"
| "broadcast_rev (x # xs) (y # ys) =
     (if x = y \<or> y = 1 then map_option ((#) x) (broadcast_rev xs ys)
      else if x = 1 then map_option ((#) y) (broadcast_rev xs ys)
      else None)"

definition broadcast_shapes :: "nat list \<Rightarrow> nat list \<Rightarrow> nat list option" where
  "broadcast_shapes s t = map_option rev (broadcast_rev (rev s) (rev t))"

definition broadcast_index :: "nat list \<Rightarrow> nat list \<Rightarrow> nat list" where
  "broadcast_index s idx =
     map2 (\<lambda>d i. if d = 1 then 0 else i) s (drop (length idx - length s) idx)"

definition element_at :: "('e, 'a) array_scheme \<Rightarrow> nat list \<Rightarrow> 'e" where
  "element_at a idx = data a (broadcast_index (shape a) idx)"

definition valid_index :: "nat list \<Rightarrow> nat list \<Rightarrow> bool" where
  "valid_index s idx = list_all2 (\<lambda>i d. i < d) idx s"

text \<open>
  The error of this module's own assertion, and the error of an elementwise operation
  on shapes that do not broadcast.
\<close>

datatype ref_error = AssertionError | RuntimeError_shapes

text \<open>
  Modelled from the spec: the elementwise operations of \<open>torch._refs\<close> that
  \<open>_xlog1py\<close> calls, in the forms it calls them: \<open>eq\<close> of a tensor and a number,
  \<open>isnan\<close> and \<open>log1p\<close> of a tensor, \<open>mul\<close> of two tensors, and \<open>where\<close> of a
  condition, a number and a tensor. The dtype of a result is the business of type
  promotion and is not part of the result here.
\<close>

definition refs_eq :: "(fl, 'a) array_scheme \<Rightarrow> fl \<Rightarrow> bool array" where
  "refs_eq a b = \<lparr>shape = shape a, data = (\<lambda>idx. fl_eq (data a idx) b)\<rparr>"

definition refs_isnan :: "(fl, 'a) array_scheme \<Rightarrow> bool array" where
  "refs_isnan a = \<lparr>shape = shape a, data = (\<lambda>idx. isnan (data a idx))\<rparr>"

definition refs_log1p :: "(fl, 'a) array_scheme \<Rightarrow> fl array" where
  "refs_log1p a = \<lparr>shape = shape a, data = (\<lambda>idx. fl_log1p (data a idx))\<rparr>"

definition refs_mul :: "(fl, 'a) array_scheme \<Rightarrow> (fl, 'b) array_scheme \<Rightarrow> ref_error + fl array" where
  "refs_mul a b =
     (case broadcast_shapes (shape a) (shape b) of
        None \<Rightarrow> Inl RuntimeError_shapes
      | Some s \<Rightarrow> Inr \<lparr>shape = s,
                       data = (\<lambda>idx. fl_mul (element_at a idx) (element_at b idx))\<rparr>)"

definition refs_where :: "bool array \<Rightarrow> fl \<Rightarrow> fl array \<Rightarrow> ref_error + fl array" where
  "refs_where pred a b =
     (case broadcast_shapes (shape pred) (shape b) of
        None \<Rightarrow> Inl RuntimeError_shapes
      | Some s \<Rightarrow> Inr \<lparr>shape = s,
                       data = (\<lambda>idx. if element_at pred idx then a else element_at b idx)\<rparr>)"

subsection \<open>\<open>logit\<close>\<close>

text \<open>
  \<open>logit(self, eps=None)\<close>, on the tensor the type promotion wrapper hands it:
  \<open>eps = -1.0\<close> when unset, \<open>lo = eps\<close>, \<open>hi = 1 - eps\<close>,
  \<open>self = torch.clamp(self, lo, hi)\<close>, \<open>(self / (1 - self)).log()\<close>. The three tensor
  operations work element by element on one tensor and keep its shape, dtype and
  device.
\<close>

definition torch_clamp :: "tensor \<Rightarrow> fl \<Rightarrow> fl \<Rightarrow> tensor" where
  "torch_clamp self lo hi = self\<lparr>data := (\<lambda>idx. clamp (data self idx) lo hi)\<rparr>"

definition logit :: "tensor \<Rightarrow> fl option \<Rightarrow> tensor" where
  "logit self eps =
     (let eps = (case eps of None \<Rightarrow> Fin (- 1) | Some e \<Rightarrow> e);
          lo = eps;
          hi = fl_sub (Fin 1) eps;
          self = torch_clamp self lo hi
      in self\<lparr>data := (\<lambda>idx. fl_log (fl_div (data self idx) (fl_sub (Fin 1) (data self idx))))\<rparr>)"

subsection \<open>\<open>_xlog1py\<close>\<close>

text \<open>
  Lines 68 to 81 of \<open>_xlog1py\<close>: the assertion that one operand at least is a tensor,
  then the promotion of a bare scalar to a tensor of the other operand's dtype and
  device, or the transfer of a scalar tensor on the CPU to the other operand's device.
  With \<open>a\<close> a number, \<open>is_cpu_scalar_tensor(a)\<close> cannot hold, and the last branch of
  the source is never taken.
\<close>

fun xlog1py_operands :: "operand \<Rightarrow> operand \<Rightarrow> ref_error + tensor \<times> tensor" where
  "xlog1py_operands (Number a) (Number b) = Inl AssertionError"
| "xlog1py_operands (TensorLike a) (Number b) =
     Inr (a, scalar_tensor b (dtype a) (device a))"
| "xlog1py_operands (TensorLike a) (TensorLike b) =
     Inr (a, if is_cpu_scalar_tensor b then device_put b (device a) else b)"
| "xlog1py_operands (Number a) (TensorLike b) =
     Inr (scalar_tensor a (dtype b) (device b), b)"

text \<open>
  Lines 84 and 85: \<open>rhs = refs.where(refs.eq(a, 0), 0, refs.mul(a, refs.log1p(b)))\<close>,
  \<open>return refs.where(refs.isnan(b), float("nan"), rhs)\<close>.
\<close>

definition xlog1py_result :: "tensor \<Rightarrow> tensor \<Rightarrow> ref_error + fl array" where
  "xlog1py_result a b =
     (case refs_mul a (refs_log1p b) of
        Inl e \<Rightarrow> Inl e
      | Inr product \<Rightarrow>
          (case refs_where (refs_eq a (Fin 0)) (Fin 0) product of
             Inl e \<Rightarrow> Inl e
           | Inr rhs \<Rightarrow> refs_where (refs_isnan b) NaN rhs))"

text \<open>\<open>_xlog1py\<close>, written \<open>xlog1py'\<close>.\<close>

definition xlog1py' :: "operand \<Rightarrow> operand \<Rightarrow> ref_error + fl array" where
  "xlog1py' a b =
     (case xlog1py_operands a b of
        Inl e \<Rightarrow> Inl e
      | Inr (a', b') \<Rightarrow> xlog1py_result a' b')"

text \<open>
  The operands as the caller passes them: whether an operand is a tensor, its shape (a
  number has no dimension), and the value it has at a position of the result (a number
  has its value everywhere, a tensor the element that the position reads).
\<close>

fun isinstance_TensorLike :: "operand \<Rightarrow> bool" where
  "isinstance_TensorLike (TensorLike a) = True"
| "isinstance_TensorLike (Number a) = False"

fun operand_shape :: "operand \<Rightarrow> nat list" where
  "operand_shape (TensorLike a) = shape a"
| "operand_shape (Number a) = []"

fun operand_at :: "operand \<Rightarrow> nat list \<Rightarrow> fl" where
  "operand_at (TensorLike a) idx = element_at a idx"
| "operand_at (Number a) idx = a"

subsection \<open>Concrete tensors for evaluating the reference operators\<close>

definition example_tensor :: tensor where
  "example_tensor =
     \<lparr>shape = [3], data = (\<lambda>idx. if idx = [0] then Fin 3 else if idx = [1] then Fin (1/2) else NaN),
      dtype = torch_float32, device = cpu\<rparr>"

definition example_a :: tensor where
  "example_a =
     \<lparr>shape = [2], data = (\<lambda>idx. if idx = [0] then Fin 0 else Fin 2),
      dtype = torch_float32, device = cpu\<rparr>"

definition example_b :: tensor where
  "example_b =
     \<lparr>shape = [1], data = (\<lambda>idx. Fin (- 1)), dtype = torch_float32, device = cpu\<rparr>"

section \<open>Properties of the consistency harness\<close>

subsection \<open>Opset-conditional rules\<close>

text \<open>
  C6. The declared opset-conditional rule on operator "sqrt": the rule the runner finds
  under that name answers \<open>should_fail(version, dtype)\<close> with true exactly when the
  dtype is bfloat16 and the version is below 13, and the runner expects an exception
  (any \<open>Exception\<close>) in exactly these sub-tests; for version 13 and above and for every
  other dtype it expects success.
\<close>

theorem sqrt_should_fail_iff:
  "map_option (\<lambda>fail. should_fail fail opset dt)
       (expected_opset_fails_name_mapping (EXPECTED_OPSET_FAILS :: 'x XfailOpset list) ''sqrt'')
     = Some (dt = torch_bfloat16 \<and> opset < 13)
   \<and> context_manager (EXPECTED_OPSET_FAILS :: 'x XfailOpset list) ''sqrt'' opset dt
     = (if dt = torch_bfloat16 \<and> opset < 13 then assertRaises Exception else nullcontext)"
  by (auto simp add: context_manager_def expected_opset_fails_name_mapping_def
      EXPECTED_OPSET_FAILS_def should_fail_def contains_opset_def contains_dtype_def
      opsets_before_def)

theorem sqrt_should_fail_iff_witness:
  "context_manager (EXPECTED_OPSET_FAILS :: unit XfailOpset list) ''sqrt'' 12 torch_bfloat16
     = assertRaises Exception
   \<and> context_manager (EXPECTED_OPSET_FAILS :: unit XfailOpset list) ''sqrt'' 13 torch_bfloat16
     = nullcontext
   \<and> context_manager (EXPECTED_OPSET_FAILS :: unit XfailOpset list) ''sqrt'' 9 torch_float16
     = nullcontext"
  using sqrt_should_fail_iff [where ?'x = unit, of 12 torch_bfloat16]
    sqrt_should_fail_iff [where ?'x = unit, of 13 torch_bfloat16]
    sqrt_should_fail_iff [where ?'x = unit, of 9 torch_float16]
  by simp

text \<open>
  C10. An opset-conditional rule whose dtype set is omitted (\<open>dtypes = None\<close>) does not
  look at the dtype: \<open>should_fail(version, dtype)\<close> is the version predicate alone, so
  where the predicate matches a failure is expected for every dtype.
\<close>

theorem should_fail_dtypes_None:
  "XfailOpset.dtypes self = None \<Longrightarrow> should_fail self opset dt = contains_opset self opset"
  by (simp add: should_fail_def contains_dtype_def)

theorem should_fail_dtypes_None_witness:
  "XfailOpset.dtypes \<lparr>XfailOpset.op_name = ''sqrt'', opsets = [OpsetInt 9, OpsetPred (opsets_after 14)],
        dtypes = None, exception = (None :: unit option), reason = ''unspecified''\<rparr> = None
   \<and> should_fail \<lparr>XfailOpset.op_name = ''sqrt'', opsets = [OpsetInt 9, OpsetPred (opsets_after 14)],
        dtypes = None, exception = (None :: unit option), reason = ''unspecified''\<rparr> 9 torch_int8
   \<and> should_fail \<lparr>XfailOpset.op_name = ''sqrt'', opsets = [OpsetInt 9, OpsetPred (opsets_after 14)],
        dtypes = None, exception = (None :: unit option), reason = ''unspecified''\<rparr> 9 torch_complex64
   \<and> \<not> should_fail \<lparr>XfailOpset.op_name = ''sqrt'', opsets = [OpsetInt 9, OpsetPred (opsets_after 14)],
        dtypes = None, exception = (None :: unit option), reason = ''unspecified''\<rparr> 10 torch_int8"
  using should_fail_dtypes_None [of "\<lparr>XfailOpset.op_name = ''sqrt'', opsets = [OpsetInt 9, OpsetPred (opsets_after 14)],
        dtypes = None, exception = (None :: unit option), reason = ''unspecified''\<rparr>"]
  by (simp add: contains_opset_def opsets_after_def)

subsection \<open>The registry mapping and the loop of \<open>skip_ops\<close>\<close>

lemma fold_upd_Some:
  "fold (\<lambda>i m. m(f i \<mapsto> i)) [0 ..< n] Map.empty k = Some i \<Longrightarrow> i < n \<and> f i = k"
  by (induction n) (auto split: if_splits)

lemma fold_upd_None:
  "(fold (\<lambda>i m. m(f i \<mapsto> i)) [0 ..< n] Map.empty k = None) = (\<forall>i<n. f i \<noteq> k)"
  by (induction n) (auto simp: less_Suc_eq)

lemma ops_mapping_Some:
  "ops_mapping db k = Some i \<Longrightarrow>
     i < length db \<and> (name (db ! i), variant_test_name (db ! i)) = k"
  unfolding ops_mapping_def by (rule fold_upd_Some)

lemma ops_mapping_None:
  "(ops_mapping db k = None) = (k \<notin> set (map (\<lambda>info. (name info, variant_test_name info)) db))"
proof -
  have "(ops_mapping db k = None) = (\<forall>i<length db. (name (db ! i), variant_test_name (db ! i)) \<noteq> k)"
    unfolding ops_mapping_def by (rule fold_upd_None)
  also have "\<dots> = (k \<notin> set (map (\<lambda>info. (name info, variant_test_name info)) db))"
    by (force simp: in_set_conv_nth)
  finally show ?thesis .
qed

lemma skip_ops_loop_unresolved:
  "\<exists>m\<in>set to_skip. mp (DecorateMeta.op_name m, variant_name m) = None \<Longrightarrow>
   \<exists>m\<in>set to_skip. mp (DecorateMeta.op_name m, variant_name m) = None
      \<and> skip_ops_loop mp tc bt infos to_skip = Inl (AssertionError_no_OpInfo m)"
proof (induction to_skip arbitrary: infos)
  case Nil
  then show ?case by simp
next
  case (Cons d rest)
  show ?case
  proof (cases "mp (DecorateMeta.op_name d, variant_name d)")
    case None
    then show ?thesis by auto
  next
    case (Some i)
    with Cons.prems have "\<exists>m\<in>set rest. mp (DecorateMeta.op_name m, variant_name m) = None"
      by auto
    from Cons.IH [OF this] Some show ?thesis by auto
  qed
qed

lemma skip_ops_loop_resolved:
  "\<forall>m\<in>set to_skip. mp (DecorateMeta.op_name m, variant_name m) \<noteq> None \<Longrightarrow>
   \<exists>infos'. skip_ops_loop mp tc bt infos to_skip = Inr infos'"
  by (induction to_skip arbitrary: infos) auto

lemma skip_ops_loop_additive:
  "skip_ops_loop mp tc bt infos to_skip = Inr infos' \<Longrightarrow>
   \<forall>k i. mp k = Some i \<longrightarrow> i < length infos \<Longrightarrow>
   length infos' = length infos \<and>
   (\<forall>i<length infos.
      name (infos' ! i) = name (infos ! i) \<and>
      variant_test_name (infos' ! i) = variant_test_name (infos ! i) \<and>
      sample_inputs (infos' ! i) = sample_inputs (infos ! i) \<and>
      OpInfo.decorators (infos' ! i) =
        OpInfo.decorators (infos ! i)
          @ map (new_decorator tc bt)
              (filter (\<lambda>m. mp (DecorateMeta.op_name m, variant_name m) = Some i) to_skip))"
proof (induction to_skip arbitrary: infos)
  case Nil
  then show ?case by simp
next
  case (Cons d rest)
  from Cons.prems(1) obtain j where j: "mp (DecorateMeta.op_name d, variant_name d) = Some j"
    by (auto split: option.splits)
  let ?infos1 = "infos[j := (infos ! j)\<lparr>OpInfo.decorators :=
                 OpInfo.decorators (infos ! j) @ [new_decorator tc bt d]\<rparr>]"
  from Cons.prems(1) j have run: "skip_ops_loop mp tc bt ?infos1 rest = Inr infos'" by simp
  have len: "\<forall>k i. mp k = Some i \<longrightarrow> i < length ?infos1"
    using Cons.prems(2) by simp
  note IH = Cons.IH [OF run len]
  from Cons.prems(2) j have jlt: "j < length infos" by blast
  show ?case
  proof (intro conjI allI impI)
    show "length infos' = length infos" using IH by simp
  next
    fix i assume i: "i < length infos"
    with IH have *: "name (infos' ! i) = name (?infos1 ! i)"
      "variant_test_name (infos' ! i) = variant_test_name (?infos1 ! i)"
      "sample_inputs (infos' ! i) = sample_inputs (?infos1 ! i)"
      "OpInfo.decorators (infos' ! i) = OpInfo.decorators (?infos1 ! i)
          @ map (new_decorator tc bt)
              (filter (\<lambda>m. mp (DecorateMeta.op_name m, variant_name m) = Some i) rest)"
      by simp_all
    show "name (infos' ! i) = name (infos ! i)"
      using * i by (cases "i = j") simp_all
    show "variant_test_name (infos' ! i) = variant_test_name (infos ! i)"
      using * i by (cases "i = j") simp_all
    show "sample_inputs (infos' ! i) = sample_inputs (infos ! i)"
      using * i by (cases "i = j") simp_all
    show "OpInfo.decorators (infos' ! i) =
        OpInfo.decorators (infos ! i)
          @ map (new_decorator tc bt)
              (filter (\<lambda>m. mp (DecorateMeta.op_name m, variant_name m) = Some i) (d # rest))"
      using * i j by (cases "i = j") auto
  qed
qed

lemma is_active_new_decorator:
  "is_active (new_decorator tc bt m) tc bt dev dt = rule_applies m dev dt"
  by (simp add: is_active_def new_decorator_def rule_applies_def)

lemma get_decorators_append:
  "OpInfo.decorators op' = OpInfo.decorators op @ map (new_decorator tc bt) ms \<Longrightarrow>
   get_decorators op' tc bt dev dt =
     get_decorators op tc bt dev dt
       @ map DecorateMeta.decorator (filter (\<lambda>m. rule_applies m dev dt) ms)"
proof -
  have "map DecorateInfo.decorators
          (filter (\<lambda>info. is_active info tc bt dev dt) (map (new_decorator tc bt) ms))
        = map DecorateMeta.decorator (filter (\<lambda>m. rule_applies m dev dt) ms)"
    by (induction ms) (simp_all add: is_active_new_decorator, simp add: new_decorator_def)
  then show "OpInfo.decorators op' = OpInfo.decorators op @ map (new_decorator tc bt) ms \<Longrightarrow>
   get_decorators op' tc bt dev dt =
     get_decorators op tc bt dev dt
       @ map DecorateMeta.decorator (filter (\<lambda>m. rule_applies m dev dt) ms)"
    by (simp add: get_decorators_def)
qed

lemma fold_upd_last:
  "fold (\<lambda>fail m. m(k fail \<mapsto> fail)) fails m0 n =
     (if filter (\<lambda>fail. k fail = n) fails = [] then m0 n
      else Some (last (filter (\<lambda>fail. k fail = n) fails)))"
  by (induction fails arbitrary: m0) auto

lemma mapping_last_for_name:
  "expected_opset_fails_name_mapping fails n =
     (if filter (\<lambda>fail. XfailOpset.op_name fail = n) fails = [] then None
      else Some (last (filter (\<lambda>fail. XfailOpset.op_name fail = n) fails)))"
  unfolding expected_opset_fails_name_mapping_def by (simp add: fold_upd_last)

subsection \<open>The export-only path for bfloat16\<close>

text \<open>
  C7. In every sub-test whose dtype is bfloat16 the runner never calls
  \<open>verification.verify\<close> (the only collaborator that runs the exported graph with
  onnxruntime and compares numbers); its first call is the export of the wrapper model
  at the sub-test's opset, and when the export and the load succeed, the calls are
  exactly the export, the load and \<open>onnx.checker.check_model\<close> with \<open>full_check=True\<close>
  on the loaded graph.
\<close>

theorem bfloat16_subtest_export_only:
  "(\<forall>a. Call_verify a \<notin> set (fst (subtest c fails op torch_bfloat16 cpu_sample opset)))
   \<and> (\<exists>rest. fst (subtest c fails op torch_bfloat16 cpu_sample opset)
          = Call_export \<lparr>operator = op, kwargs = SampleInput.kwargs cpu_sample\<rparr>
              (input cpu_sample # args cpu_sample) opset None # rest)
   \<and> (\<forall>model_buffer onnx_model.
        onnx_export c \<lparr>operator = op, kwargs = SampleInput.kwargs cpu_sample\<rparr>
            (input cpu_sample # args cpu_sample) opset None = Inr model_buffer
        \<longrightarrow> onnx_load c model_buffer = Inr onnx_model
        \<longrightarrow> fst (subtest c fails op torch_bfloat16 cpu_sample opset)
            = [Call_export \<lparr>operator = op, kwargs = SampleInput.kwargs cpu_sample\<rparr>
                 (input cpu_sample # args cpu_sample) opset None,
               Call_load model_buffer,
               Call_check_model onnx_model True])"
  by (auto simp add: subtest_def run_the_test_def Let_def split: sum.splits)

theorem bfloat16_subtest_export_only_witness:
  "onnx_export example_collaborators \<lparr>operator = example_op, kwargs = SampleInput.kwargs example_sample\<rparr>
        (input example_sample # args example_sample) 13 None = Inr 13
   \<and> onnx_load example_collaborators 13 = Inr 13
   \<and> fst (subtest example_collaborators (EXPECTED_OPSET_FAILS :: string XfailOpset list) example_op
            torch_bfloat16 example_sample 13)
       = [Call_export \<lparr>operator = example_op, kwargs = []\<rparr> [4] 13 None,
          Call_load 13, Call_check_model 13 True]"
  using bfloat16_subtest_export_only [of example_collaborators
      "EXPECTED_OPSET_FAILS :: string XfailOpset list" example_op example_sample 13]
  by (simp add: example_collaborators_def example_sample_def)

text \<open>
  C4, as amended. Outside the export-only path (every dtype but bfloat16) the one call of
  a sub-test is \<open>verification.verify\<close> on the wrapper model, the sample's inputs and the
  sub-test's opset, with \<open>keep_initializers_as_inputs=True\<close>. On the export-only
  bfloat16 path every call of \<open>torch.onnx.export\<close> leaves
  \<open>keep_initializers_as_inputs\<close> unset.
\<close>

theorem export_keep_initializers:
  "(dt \<noteq> torch_bfloat16 \<longrightarrow>
      (\<exists>a. fst (subtest c fails op dt cpu_sample opset) = [Call_verify a]
         \<and> keep_initializers_as_inputs a = True
         \<and> opset_version a = opset
         \<and> model a = \<lparr>operator = op, kwargs = SampleInput.kwargs cpu_sample\<rparr>
         \<and> inputs a = input cpu_sample # args cpu_sample))
   \<and> (dt = torch_bfloat16 \<longrightarrow>
      (\<forall>m ins v keep. Call_export m ins v keep \<in> set (fst (subtest c fails op dt cpu_sample opset))
         \<longrightarrow> keep = None))"
  by (auto simp add: subtest_def run_the_test_def Let_def split: sum.splits)

theorem export_keep_initializers_witness:
  "torch_float32 \<noteq> torch_bfloat16
   \<and> fst (subtest example_collaborators (EXPECTED_OPSET_FAILS :: string XfailOpset list) example_op
            torch_float32 example_sample 13)
       = [Call_verify \<lparr>model = \<lparr>operator = example_op, kwargs = []\<rparr>, inputs = [4],
            input_kwargs = [], opset_version = 13, keep_initializers_as_inputs = True,
            ort_providers = [''CPUExecutionProvider''], check_shape = True, check_dtype = True,
            flatten = True\<rparr>]
   \<and> Call_export \<lparr>operator = example_op, kwargs = []\<rparr> [4] 13 None
       \<in> set (fst (subtest example_collaborators (EXPECTED_OPSET_FAILS :: string XfailOpset list)
                     example_op torch_bfloat16 example_sample 13))"
  using export_keep_initializers [of torch_float32 example_collaborators
      "EXPECTED_OPSET_FAILS :: string XfailOpset list" example_op example_sample 13]
    export_keep_initializers [of torch_bfloat16 example_collaborators
      "EXPECTED_OPSET_FAILS :: string XfailOpset list" example_op example_sample 13]
  by (simp add: subtest_def run_the_test_def example_collaborators_def example_sample_def
      ORT_PROVIDERS_def)

text \<open>
  C4 as stated fails: in a bfloat16 sub-test at opset 13 the export is called without
  \<open>keep_initializers_as_inputs\<close>, and no export with the value \<open>True\<close> is made.
\<close>

theorem bfloat16_export_without_keep_initializers:
  "fst (subtest example_collaborators (EXPECTED_OPSET_FAILS :: string XfailOpset list) example_op
            torch_bfloat16 example_sample 13)
       = [Call_export \<lparr>operator = example_op, kwargs = []\<rparr> [4] 13 None,
          Call_load 13, Call_check_model 13 True]
   \<and> Call_export \<lparr>operator = example_op, kwargs = []\<rparr> [4] 13 (Some True)
       \<notin> set (fst (subtest example_collaborators (EXPECTED_OPSET_FAILS :: string XfailOpset list)
                     example_op torch_bfloat16 example_sample 13))"
  by (simp add: subtest_def run_the_test_def example_collaborators_def example_sample_def)

subsection \<open>Unresolved rules\<close>

text \<open>
  C5, as amended. When a declared skip or xfail rule has an (operator name, variant name)
  key that no entry of the registry carries, loading the module fails with the
  assertion of \<open>skip_ops\<close>, naming such a rule, before any test runs; when every skip
  and xfail rule resolves, loading succeeds whatever the opset-conditional rules are:
  these are not resolved against the registry.
\<close>

theorem load_module_unresolved_skip_or_xfail:
  "((\<exists>m\<in>set skips_or_fails. (DecorateMeta.op_name m, variant_name m)
          \<notin> set (map (\<lambda>info. (name info, variant_test_name info)) op_db))
     \<longrightarrow> (\<exists>m\<in>set skips_or_fails.
            (DecorateMeta.op_name m, variant_name m)
               \<notin> set (map (\<lambda>info. (name info, variant_test_name info)) op_db)
            \<and> load_module op_db skips_or_fails fails = Inl (AssertionError_no_OpInfo m)))
   \<and> ((\<forall>m\<in>set skips_or_fails. (DecorateMeta.op_name m, variant_name m)
          \<in> set (map (\<lambda>info. (name info, variant_test_name info)) op_db))
     \<longrightarrow> (\<exists>db. load_module op_db skips_or_fails fails = Inr \<lparr>OPS_DB = db, opset_fails = fails\<rparr>))"
proof (intro conjI impI)
  assume "\<exists>m\<in>set skips_or_fails. (DecorateMeta.op_name m, variant_name m)
          \<notin> set (map (\<lambda>info. (name info, variant_test_name info)) op_db)"
  then have "\<exists>m\<in>set skips_or_fails.
      ops_mapping op_db (DecorateMeta.op_name m, variant_name m) = None"
    using ops_mapping_None [of op_db] by blast
  from skip_ops_loop_unresolved [OF this, of "''TestConsistency''" "''test_output_match''" op_db]
  obtain m where m: "m \<in> set skips_or_fails"
      "ops_mapping op_db (DecorateMeta.op_name m, variant_name m) = None"
      "skip_ops op_db ''TestConsistency'' ''test_output_match'' skips_or_fails
         = Inl (AssertionError_no_OpInfo m)"
    unfolding skip_ops_def by blast
  from m(2) have "(DecorateMeta.op_name m, variant_name m)
               \<notin> set (map (\<lambda>info. (name info, variant_test_name info)) op_db)"
    using ops_mapping_None [of op_db "(DecorateMeta.op_name m, variant_name m)"] by blast
  moreover from m(3) have "load_module op_db skips_or_fails fails = Inl (AssertionError_no_OpInfo m)"
    by (simp add: load_module_def)
  ultimately show "\<exists>m\<in>set skips_or_fails.
            (DecorateMeta.op_name m, variant_name m)
               \<notin> set (map (\<lambda>info. (name info, variant_test_name info)) op_db)
            \<and> load_module op_db skips_or_fails fails = Inl (AssertionError_no_OpInfo m)"
    using m(1) by blast
next
  assume "\<forall>m\<in>set skips_or_fails. (DecorateMeta.op_name m, variant_name m)
          \<in> set (map (\<lambda>info. (name info, variant_test_name info)) op_db)"
  then have "\<forall>m\<in>set skips_or_fails.
      ops_mapping op_db (DecorateMeta.op_name m, variant_name m) \<noteq> None"
    using ops_mapping_None [of op_db] by blast
  from skip_ops_loop_resolved [OF this, of "''TestConsistency''" "''test_output_match''" op_db]
  obtain db where "skip_ops op_db ''TestConsistency'' ''test_output_match'' skips_or_fails = Inr db"
    unfolding skip_ops_def by blast
  then show "\<exists>db. load_module op_db skips_or_fails fails = Inr \<lparr>OPS_DB = db, opset_fails = fails\<rparr>"
    by (simp add: load_module_def)
qed

theorem load_module_unresolved_skip_or_xfail_witness:
  "load_module [example_op]
       [xfail ''sqrt'' '''' None None ''unspecified'', skip ''no_such_op'' '''' None None ''unspecified'']
       ([] :: string XfailOpset list)
     = Inl (AssertionError_no_OpInfo (skip ''no_such_op'' '''' None None ''unspecified''))
   \<and> (\<exists>db. load_module [example_op] [xfail ''sqrt'' '''' None None ''unspecified'']
              ([] :: string XfailOpset list) = Inr \<lparr>OPS_DB = db, opset_fails = []\<rparr>)"
  using load_module_unresolved_skip_or_xfail [of
      "[xfail ''sqrt'' '''' None None ''unspecified'', skip ''no_such_op'' '''' None None ''unspecified'']"
      "[example_op]" "[] :: string XfailOpset list"]
    load_module_unresolved_skip_or_xfail [of
      "[xfail ''sqrt'' '''' None None ''unspecified'']"
      "[example_op]" "[] :: string XfailOpset list"]
  by (simp add: example_op_def xfail_def skip_def)

text \<open>
  C5 as stated fails for an opset-conditional rule: with a registry that has no operator
  "no\_such\_op", a rule declared for that name does not stop the module from loading.
\<close>

theorem unresolved_opset_rule_not_reported:
  "ops_mapping [example_op] (''no_such_op'', '''') = None
   \<and> load_module [example_op] [] [example_opset_rule ''no_such_op'' torch_bfloat16 (OpsetInt 9)]
     = Inr \<lparr>OPS_DB = [example_op],
            opset_fails = [example_opset_rule ''no_such_op'' torch_bfloat16 (OpsetInt 9)]\<rparr>"
  by (simp add: load_module_def skip_ops_def ops_mapping_def example_op_def)

subsection \<open>Accumulation of rules\<close>

text \<open>
  C9, as amended. Attaching skip and xfail rules is additive, and all of them take
  effect: after \<open>skip_ops\<close> every entry of the registry keeps its name, its variant
  and all the decorators it had, in order, followed by one new \<open>DecorateInfo\<close> for each
  rule that resolves to it, in the order of declaration; and every test instance
  (device, dtype) of the entry is decorated with the decorators it had before, followed
  by the decorator of every rule that resolves to the entry and whose filters admit the
  device and the dtype. Opset-conditional rules are not accumulated: under an operator
  name the runner finds the last rule declared for that name, and no other.
\<close>

theorem skip_ops_additive:
  "(skip_ops all_opinfos test_case_name base_test_name to_skip = Inr db \<longrightarrow>
      length db = length all_opinfos \<and>
      (\<forall>i<length all_opinfos.
         name (db ! i) = name (all_opinfos ! i) \<and>
         variant_test_name (db ! i) = variant_test_name (all_opinfos ! i) \<and>
         OpInfo.decorators (db ! i) =
           OpInfo.decorators (all_opinfos ! i)
             @ map (new_decorator test_case_name base_test_name)
                 (filter (\<lambda>m. ops_mapping all_opinfos (DecorateMeta.op_name m, variant_name m) = Some i)
                    to_skip) \<and>
         get_decorators (db ! i) test_case_name base_test_name dev dt =
           get_decorators (all_opinfos ! i) test_case_name base_test_name dev dt
             @ map DecorateMeta.decorator
                 (filter (\<lambda>m. rule_applies m dev dt)
                    (filter (\<lambda>m. ops_mapping all_opinfos (DecorateMeta.op_name m, variant_name m) = Some i)
                       to_skip))))
   \<and> expected_opset_fails_name_mapping fails opname =
       (if filter (\<lambda>fail. XfailOpset.op_name fail = opname) fails = [] then None
        else Some (last (filter (\<lambda>fail. XfailOpset.op_name fail = opname) fails)))"
proof (intro conjI impI)
  assume run: "skip_ops all_opinfos test_case_name base_test_name to_skip = Inr db"
  have bound: "\<forall>k i. ops_mapping all_opinfos k = Some i \<longrightarrow> i < length all_opinfos"
    using ops_mapping_Some by blast
  note add = skip_ops_loop_additive [OF run [unfolded skip_ops_def] bound]
  from add show "length db = length all_opinfos" by blast
  show "\<forall>i<length all_opinfos.
         name (db ! i) = name (all_opinfos ! i) \<and>
         variant_test_name (db ! i) = variant_test_name (all_opinfos ! i) \<and>
         OpInfo.decorators (db ! i) =
           OpInfo.decorators (all_opinfos ! i)
             @ map (new_decorator test_case_name base_test_name)
                 (filter (\<lambda>m. ops_mapping all_opinfos (DecorateMeta.op_name m, variant_name m) = Some i)
                    to_skip) \<and>
         get_decorators (db ! i) test_case_name base_test_name dev dt =
           get_decorators (all_opinfos ! i) test_case_name base_test_name dev dt
             @ map DecorateMeta.decorator
                 (filter (\<lambda>m. rule_applies m dev dt)
                    (filter (\<lambda>m. ops_mapping all_opinfos (DecorateMeta.op_name m, variant_name m) = Some i)
                       to_skip))"
  proof (intro allI impI)
    fix i assume i: "i < length all_opinfos"
    with add have f: "name (db ! i) = name (all_opinfos ! i)"
      "variant_test_name (db ! i) = variant_test_name (all_opinfos ! i)"
      "OpInfo.decorators (db ! i) =
           OpInfo.decorators (all_opinfos ! i)
             @ map (new_decorator test_case_name base_test_name)
                 (filter (\<lambda>m. ops_mapping all_opinfos (DecorateMeta.op_name m, variant_name m) = Some i)
                    to_skip)"
      by blast+
    from get_decorators_append [OF f(3)] f
    show "name (db ! i) = name (all_opinfos ! i) \<and>
         variant_test_name (db ! i) = variant_test_name (all_opinfos ! i) \<and>
         OpInfo.decorators (db ! i) =
           OpInfo.decorators (all_opinfos ! i)
             @ map (new_decorator test_case_name base_test_name)
                 (filter (\<lambda>m. ops_mapping all_opinfos (DecorateMeta.op_name m, variant_name m) = Some i)
                    to_skip) \<and>
         get_decorators (db ! i) test_case_name base_test_name dev dt =
           get_decorators (all_opinfos ! i) test_case_name base_test_name dev dt
             @ map DecorateMeta.decorator
                 (filter (\<lambda>m. rule_applies m dev dt)
                    (filter (\<lambda>m. ops_mapping all_opinfos (DecorateMeta.op_name m, variant_name m) = Some i)
                       to_skip))"
      by blast
  qed
next
  show "expected_opset_fails_name_mapping fails opname =
       (if filter (\<lambda>fail. XfailOpset.op_name fail = opname) fails = [] then None
        else Some (last (filter (\<lambda>fail. XfailOpset.op_name fail = opname) fails)))"
    by (rule mapping_last_for_name)
qed

theorem skip_ops_additive_witness:
  "skip_ops [example_op] ''TestConsistency'' ''test_output_match''
       [xfail ''sqrt'' [] None (Some [torch_bfloat16, torch_float64]) ''first'',
        skip ''sqrt'' [] None (Some [torch_bool, torch_bfloat16]) ''second'']
     = Inr [example_op\<lparr>OpInfo.decorators :=
              [new_decorator ''TestConsistency'' ''test_output_match''
                 (xfail ''sqrt'' [] None (Some [torch_bfloat16, torch_float64]) ''first''),
               new_decorator ''TestConsistency'' ''test_output_match''
                 (skip ''sqrt'' [] None (Some [torch_bool, torch_bfloat16]) ''second'')]\<rparr>]
   \<and> get_decorators
        (example_op\<lparr>OpInfo.decorators :=
              [new_decorator ''TestConsistency'' ''test_output_match''
                 (xfail ''sqrt'' [] None (Some [torch_bfloat16, torch_float64]) ''first''),
               new_decorator ''TestConsistency'' ''test_output_match''
                 (skip ''sqrt'' [] None (Some [torch_bool, torch_bfloat16]) ''second'')]\<rparr>)
        ''TestConsistency'' ''test_output_match'' ''cpu'' torch_bfloat16
     = [unittest_expectedFailure, unittest_skip ''second'']
   \<and> get_decorators
        (example_op\<lparr>OpInfo.decorators :=
              [new_decorator ''TestConsistency'' ''test_output_match''
                 (xfail ''sqrt'' [] None (Some [torch_bfloat16, torch_float64]) ''first''),
               new_decorator ''TestConsistency'' ''test_output_match''
                 (skip ''sqrt'' [] None (Some [torch_bool, torch_bfloat16]) ''second'')]\<rparr>)
        ''TestConsistency'' ''test_output_match'' ''cpu'' torch_bool
     = [unittest_skip ''second'']
   \<and> expected_opset_fails_name_mapping
        [example_opset_rule ''sqrt'' torch_bfloat16 (OpsetPred (opsets_before 13)),
         example_opset_rule ''sqrt'' torch_float16 (OpsetInt 9),
         example_opset_rule ''ceil'' torch_float16 (OpsetInt 9)]
        ''sqrt''
     = Some (example_opset_rule ''sqrt'' torch_float16 (OpsetInt 9))"
  using skip_ops_additive [of "[example_op]" "''TestConsistency''" "''test_output_match''"
      "[xfail ''sqrt'' [] None (Some [torch_bfloat16, torch_float64]) ''first'',
        skip ''sqrt'' [] None (Some [torch_bool, torch_bfloat16]) ''second'']"
      "[example_op\<lparr>OpInfo.decorators :=
              [new_decorator ''TestConsistency'' ''test_output_match''
                 (xfail ''sqrt'' [] None (Some [torch_bfloat16, torch_float64]) ''first''),
               new_decorator ''TestConsistency'' ''test_output_match''
                 (skip ''sqrt'' [] None (Some [torch_bool, torch_bfloat16]) ''second'')]\<rparr>]"
      "''cpu''" torch_bfloat16
      "[example_opset_rule ''sqrt'' torch_bfloat16 (OpsetPred (opsets_before 13)),
         example_opset_rule ''sqrt'' torch_float16 (OpsetInt 9),
         example_opset_rule ''ceil'' torch_float16 (OpsetInt 9)]" "''sqrt''"]
  by (simp add: skip_ops_def ops_mapping_def example_op_def xfail_def skip_def
      get_decorators_def is_active_def new_decorator_def example_opset_rule_def
      expected_opset_fails_name_mapping_def)

text \<open>
  C9 as stated fails for opset-conditional rules: of two rules declared for "sqrt", the
  first one expects a failure for bfloat16 at opset 10, and the runner expects none.
\<close>

theorem opset_rules_not_additive:
  "should_fail (example_opset_rule ''sqrt'' torch_bfloat16 (OpsetPred (opsets_before 13))) 10 torch_bfloat16
   \<and> context_manager
        [example_opset_rule ''sqrt'' torch_bfloat16 (OpsetPred (opsets_before 13)),
         example_opset_rule ''sqrt'' torch_float16 (OpsetInt 9)]
        ''sqrt'' 10 torch_bfloat16 = nullcontext"
  by (simp add: context_manager_def expected_opset_fails_name_mapping_def should_fail_def
      contains_opset_def contains_dtype_def opsets_before_def example_opset_rule_def)

section \<open>Properties of the reference operators\<close>

subsection \<open>Type promotion\<close>

lemma widest_mem: "widest b ds \<in> set (b # ds)"
  by (induction ds arbitrary: b) (auto split: if_splits)

lemma widest_max: "d \<in> set (b # ds) \<Longrightarrow> bit_width d \<le> bit_width (widest b ds)"
proof (induction ds arbitrary: b d)
  case Nil
  then show ?case by simp
next
  case (Cons x xs)
  let ?b' = "if bit_width b < bit_width x then x else b"
  have mono: "bit_width ?b' \<le> bit_width (widest ?b' xs)"
    using Cons.IH [of ?b' ?b'] by simp
  from Cons.prems consider "d = b" | "d = x" | "d \<in> set xs" by auto
  then show ?case
  proof cases
    case 1
    then show ?thesis using mono by (simp split: if_splits)
  next
    case 2
    then show ?thesis using mono by (simp split: if_splits)
  next
    case 3
    then have "d \<in> set (?b' # xs)" by simp
    from Cons.IH [OF this] show ?thesis by simp
  qed
qed

text \<open>
  C3. Every reference operator of the module (i1, i0e, i1e, logit, xlog1py, zeta) is
  declared with the promotion kind integer-to-float, and under that kind: when all
  operand dtypes are boolean or integer the result dtype is the default floating dtype;
  otherwise, when a floating or complex dtype is among the operands, the result is one
  of the operands' floating or complex dtypes and none of them is wider.
\<close>

theorem int_to_float_promotion:
  "(op, kind) \<in> set special_refs \<Longrightarrow>
     kind = INT_TO_FLOAT
     \<and> (list_all is_boolean_or_integer operand_dtypes \<longrightarrow>
          promote default_float_dtype kind operand_dtypes = Inr default_float_dtype)
     \<and> (\<not> list_all is_boolean_or_integer operand_dtypes \<longrightarrow>
          (\<exists>d\<in>set operand_dtypes. is_floating_or_complex d) \<longrightarrow>
          (\<exists>w. promote default_float_dtype kind operand_dtypes = Inr w
             \<and> w \<in> set operand_dtypes \<and> is_floating_or_complex w
             \<and> (\<forall>d\<in>set operand_dtypes. is_floating_or_complex d \<longrightarrow> bit_width d \<le> bit_width w)))"
proof (intro conjI impI)
  assume "(op, kind) \<in> set special_refs"
  then show k: "kind = INT_TO_FLOAT" by (cases kind) simp
  show "promote default_float_dtype kind operand_dtypes = Inr default_float_dtype"
    if "list_all is_boolean_or_integer operand_dtypes"
    using that k by (simp add: promote_def)
  show "\<exists>w. promote default_float_dtype kind operand_dtypes = Inr w
             \<and> w \<in> set operand_dtypes \<and> is_floating_or_complex w
             \<and> (\<forall>d\<in>set operand_dtypes. is_floating_or_complex d \<longrightarrow> bit_width d \<le> bit_width w)"
    if some: "\<not> list_all is_boolean_or_integer operand_dtypes"
      and fl: "\<exists>d\<in>set operand_dtypes. is_floating_or_complex d"
  proof -
    from fl obtain c cs where cs: "filter is_floating_or_complex operand_dtypes = c # cs"
      by (cases "filter is_floating_or_complex operand_dtypes") (auto simp: filter_empty_conv)
    let ?w = "widest c cs"
    have res: "promote default_float_dtype kind operand_dtypes = Inr ?w"
      using some k cs by (simp add: promote_def)
    have "?w \<in> set (c # cs)" by (rule widest_mem)
    then have mem: "?w \<in> set (filter is_floating_or_complex operand_dtypes)"
      by (simp only: cs)
    have "bit_width d \<le> bit_width ?w" if "d \<in> set operand_dtypes" "is_floating_or_complex d" for d
    proof -
      from that have "d \<in> set (c # cs)" by (simp only: cs [symmetric]) simp
      then show ?thesis by (rule widest_max)
    qed
    with res mem show ?thesis by auto
  qed
qed

theorem int_to_float_promotion_witness:
  "(''xlog1py'', INT_TO_FLOAT) \<in> set special_refs
   \<and> promote torch_float32 INT_TO_FLOAT [torch_int64, torch_bool] = Inr torch_float32
   \<and> promote torch_float32 INT_TO_FLOAT [torch_int64, torch_float16, torch_float64] = Inr torch_float64"
proof -
  have m: "(''xlog1py'', INT_TO_FLOAT) \<in> set special_refs" by (simp add: special_refs_def)
  from int_to_float_promotion [OF m, of "[torch_int64, torch_bool]" torch_float32]
  have 1: "promote torch_float32 INT_TO_FLOAT [torch_int64, torch_bool] = Inr torch_float32"
    by simp
  from int_to_float_promotion [OF m, of "[torch_int64, torch_float16, torch_float64]" torch_float32]
  have 2: "promote torch_float32 INT_TO_FLOAT [torch_int64, torch_float16, torch_float64] = Inr torch_float64"
    by auto
  from m 1 2 show ?thesis by simp
qed

subsection \<open>\<open>logit\<close>\<close>

lemma logit_element_unclamped:
  "fl_log (fl_div (clamp x (Fin (- 1)) (fl_sub (Fin 1) (Fin (- 1))))
                  (fl_sub (Fin 1) (clamp x (Fin (- 1)) (fl_sub (Fin 1) (Fin (- 1))))))
   = fl_log (fl_div x (fl_sub (Fin 1) x))"
proof (cases x)
  case (Fin a)
  consider "a < - 1" | "2 < a" | "- 1 \<le> a \<and> a \<le> 2" by linarith
  then show ?thesis
  proof cases
    case 1
    then have "a / (1 - a) < 0" by (simp add: divide_neg_pos)
    with 1 Fin show ?thesis by (simp add: clamp_def)
  next
    case 2
    then have "a / (1 - a) < 0" by (simp add: divide_pos_neg)
    with 2 Fin show ?thesis by (simp add: clamp_def)
  next
    case 3
    with Fin show ?thesis by (simp add: clamp_def)
  qed
qed (simp_all add: clamp_def inf_of_sign_def)

text \<open>
  C2. \<open>logit(x, eps=None)\<close> is \<open>logit(x, eps=-1.0)\<close>; with \<open>eps\<close> unset the result
  is, element by element, \<open>log(x / (1 - x))\<close>, the same as without the clamp step; and
  for a supplied \<open>eps\<close> the result is \<open>log(x' / (1 - x'))\<close> with \<open>x'\<close> the clamp of
  \<open>x\<close> to \<open>eps\<close> and \<open>1 - eps\<close>.
\<close>

theorem logit_default_eps:
  "logit self None = logit self (Some (Fin (- 1)))
   \<and> logit self None
       = self\<lparr>data := (\<lambda>idx. fl_log (fl_div (data self idx) (fl_sub (Fin 1) (data self idx))))\<rparr>
   \<and> logit self (Some eps)
       = self\<lparr>data := (\<lambda>idx.
            fl_log (fl_div (clamp (data self idx) eps (fl_sub (Fin 1) eps))
                           (fl_sub (Fin 1) (clamp (data self idx) eps (fl_sub (Fin 1) eps)))))\<rparr>"
proof (intro conjI)
  show "logit self None = logit self (Some (Fin (- 1)))"
    by (simp add: logit_def)
  show "logit self None
       = self\<lparr>data := (\<lambda>idx. fl_log (fl_div (data self idx) (fl_sub (Fin 1) (data self idx))))\<rparr>"
    unfolding logit_def torch_clamp_def Let_def
    by (simp add: logit_element_unclamped del: fl_sub.simps)
  show "logit self (Some eps)
       = self\<lparr>data := (\<lambda>idx.
            fl_log (fl_div (clamp (data self idx) eps (fl_sub (Fin 1) eps))
                           (fl_sub (Fin 1) (clamp (data self idx) eps (fl_sub (Fin 1) eps)))))\<rparr>"
    by (simp add: logit_def torch_clamp_def Let_def)
qed

theorem logit_default_eps_witness:
  "data (logit example_tensor None) [0] = NaN
   \<and> data (logit example_tensor None) [1] = Fin (ln 1)
   \<and> data (logit example_tensor (Some (Fin (- 1)))) [0] = NaN
   \<and> data (logit example_tensor (Some (Fin (1/4)))) [0] = Fin (ln 3)"
proof -
  note t = logit_default_eps [of example_tensor "Fin (1/4)"]
  from t have e1: "logit example_tensor (Some (Fin (- 1))) = logit example_tensor None"
    by simp
  from t have e2: "logit example_tensor None
       = example_tensor\<lparr>data := (\<lambda>idx. fl_log (fl_div (data example_tensor idx)
             (fl_sub (Fin 1) (data example_tensor idx))))\<rparr>"
    by blast
  from t have e3: "logit example_tensor (Some (Fin (1/4)))
       = example_tensor\<lparr>data := (\<lambda>idx.
            fl_log (fl_div (clamp (data example_tensor idx) (Fin (1/4)) (fl_sub (Fin 1) (Fin (1/4))))
                           (fl_sub (Fin 1) (clamp (data example_tensor idx) (Fin (1/4))
                              (fl_sub (Fin 1) (Fin (1/4)))))))\<rparr>"
    by blast
  have "data (logit example_tensor None) [0] = NaN"
    by (simp add: e2) (simp add: example_tensor_def)
  moreover have "data (logit example_tensor None) [1] = Fin (ln 1)"
    by (simp add: e2) (simp add: example_tensor_def)
  moreover have "data (logit example_tensor (Some (Fin (1/4)))) [0] = Fin (ln 3)"
    by (simp add: e3) (simp add: example_tensor_def clamp_def)
  ultimately show ?thesis by (simp add: e1)
qed

subsection \<open>Broadcasting\<close>

lemma broadcast_rev_Nil2: "broadcast_rev xs [] = Some xs"
  by (cases xs) simp_all

lemma broadcast_rev_refl: "broadcast_rev xs xs = Some xs"
  by (induction xs) simp_all

lemma broadcast_rev_absorb:
  "broadcast_rev xs ys = Some zs \<Longrightarrow>
     broadcast_rev xs zs = Some zs \<and> broadcast_rev ys zs = Some zs"
proof (induction xs ys arbitrary: zs rule: broadcast_rev.induct)
  case (1 ys)
  then show ?case by (simp add: broadcast_rev_refl)
next
  case (2 x xs)
  then show ?case by (simp add: broadcast_rev_refl)
next
  case (3 x xs y ys)
  show ?case
  proof (cases "x = y \<or> y = 1")
    case True
    with "3.prems" obtain zs' where zs': "broadcast_rev xs ys = Some zs'" "zs = x # zs'"
      by auto
    from "3.IH"(1) [OF True zs'(1)] True zs'(2) show ?thesis by auto
  next
    case False
    with "3.prems" have x1: "x = 1" by (auto split: if_splits)
    with False "3.prems" obtain zs' where zs': "broadcast_rev xs ys = Some zs'" "zs = y # zs'"
      by auto
    from "3.IH"(2) [OF False x1 zs'(1)] False x1 zs'(2) show ?thesis by auto
  qed
qed

lemma broadcast_shapes_absorb:
  assumes "broadcast_shapes s t = Some u"
  shows "broadcast_shapes s u = Some u" and "broadcast_shapes t u = Some u"
proof -
  from assms obtain zs where zs: "broadcast_rev (rev s) (rev t) = Some zs" "u = rev zs"
    by (auto simp: broadcast_shapes_def)
  from broadcast_rev_absorb [OF zs(1)] zs(2)
  show "broadcast_shapes s u = Some u" and "broadcast_shapes t u = Some u"
    by (simp_all add: broadcast_shapes_def)
qed

lemma broadcast_shapes_refl: "broadcast_shapes s s = Some s"
  by (simp add: broadcast_shapes_def broadcast_rev_refl)

lemma broadcast_shapes_scalar: "broadcast_shapes s [] = Some s" "broadcast_shapes [] s = Some s"
  by (simp_all add: broadcast_shapes_def broadcast_rev_Nil2)

lemma broadcast_index_valid:
  "valid_index s idx \<Longrightarrow> broadcast_index s idx = idx"
proof -
  assume v: "valid_index s idx"
  then have len: "length idx = length s" by (simp add: valid_index_def list_all2_lengthD)
  have "map2 (\<lambda>d i. if d = 1 then 0 else i) s idx = idx"
  proof (rule nth_equalityI)
    show "length (map2 (\<lambda>d i. if d = 1 then 0 else i) s idx) = length idx"
      using len by simp
    fix j assume "j < length (map2 (\<lambda>d i. if d = 1 then 0 else i) s idx)"
    then have j: "j < length idx" using len by simp
    with v have "idx ! j < s ! j" by (simp add: valid_index_def list_all2_nthD)
    with j len show "map2 (\<lambda>d i. if d = 1 then 0 else i) s idx ! j = idx ! j"
      by simp
  qed
  with len show ?thesis by (simp add: broadcast_index_def)
qed

lemma xlog1py_result_elementwise:
  assumes s: "broadcast_shapes (shape a) (shape b) = Some s"
  shows "\<exists>r. xlog1py_result a b = Inr r \<and> shape r = s
     \<and> (\<forall>idx. valid_index s idx \<longrightarrow>
           data r idx =
             (if isnan (element_at b idx) then NaN
              else if fl_eq (element_at a idx) (Fin 0) then Fin 0
              else fl_mul (element_at a idx) (fl_log1p (element_at b idx))))"
proof -
  let ?product = "\<lparr>shape = s,
     data = (\<lambda>idx. fl_mul (element_at a idx) (element_at (refs_log1p b) idx))\<rparr>"
  let ?rhs = "\<lparr>shape = s,
     data = (\<lambda>idx. if element_at (refs_eq a (Fin 0)) idx then Fin 0 else element_at ?product idx)\<rparr>"
  let ?r = "\<lparr>shape = s,
     data = (\<lambda>idx. if element_at (refs_isnan b) idx then NaN else element_at ?rhs idx)\<rparr>"
  have mul: "refs_mul a (refs_log1p b) = Inr ?product"
    using s by (simp add: refs_mul_def refs_log1p_def)
  have w1: "refs_where (refs_eq a (Fin 0)) (Fin 0) ?product = Inr ?rhs"
    using broadcast_shapes_absorb(1) [OF s] by (simp add: refs_where_def refs_eq_def)
  have w2: "refs_where (refs_isnan b) NaN ?rhs = Inr ?r"
    using broadcast_shapes_absorb(2) [OF s] by (simp add: refs_where_def refs_isnan_def)
  have res: "xlog1py_result a b = Inr ?r"
    by (simp only: xlog1py_result_def mul w1 w2 sum.case)
  have "data ?r idx =
             (if isnan (element_at b idx) then NaN
              else if fl_eq (element_at a idx) (Fin 0) then Fin 0
              else fl_mul (element_at a idx) (fl_log1p (element_at b idx)))"
    if "valid_index s idx" for idx
    using broadcast_index_valid [OF that]
    by (simp add: element_at_def refs_isnan_def refs_eq_def refs_log1p_def)
  with res show ?thesis by auto
qed

lemma xlog1py_result_shapes:
  "broadcast_shapes (shape a) (shape b) = None \<Longrightarrow> xlog1py_result a b = Inl RuntimeError_shapes"
  by (simp add: xlog1py_result_def refs_mul_def refs_log1p_def)

lemma xlog1py_operands_values:
  "xlog1py_operands a b = Inr (ta, tb) \<Longrightarrow>
     shape ta = operand_shape a \<and> shape tb = operand_shape b
     \<and> element_at ta idx = operand_at a idx \<and> element_at tb idx = operand_at b idx"
  by (cases a; cases b)
     (auto simp: scalar_tensor_def device_put_def element_at_def split: if_splits)

lemma xlog1py_operands_defined:
  "isinstance_TensorLike a \<or> isinstance_TensorLike b \<Longrightarrow>
     \<exists>ta tb. xlog1py_operands a b = Inr (ta, tb)"
  by (cases a; cases b) auto

subsection \<open>\<open>_xlog1py\<close>\<close>

text \<open>
  C1. For operands \<open>a\<close> and \<open>b\<close> of which one at least is a tensor, and whose shapes
  broadcast: the call returns a result of the broadcast shape, and at every position
  the result is NaN where \<open>b\<close> is NaN, whatever \<open>a\<close> is there; it is 0 where \<open>b\<close> is
  not NaN and \<open>a == 0\<close>; and it is \<open>a * log1p(b)\<close> at every other position. \<open>a\<close> and
  \<open>b\<close> are the operands of the call, read at the position.
\<close>

theorem xlog1py_elementwise:
  assumes "isinstance_TensorLike a \<or> isinstance_TensorLike b"
    and "broadcast_shapes (operand_shape a) (operand_shape b) = Some s"
    and "valid_index s idx"
  shows "\<exists>r. xlog1py' a b = Inr r \<and> shape r = s
     \<and> data r idx =
         (if isnan (operand_at b idx) then NaN
          else if fl_eq (operand_at a idx) (Fin 0) then Fin 0
          else fl_mul (operand_at a idx) (fl_log1p (operand_at b idx)))"
proof -
  from xlog1py_operands_defined [OF assms(1)]
  obtain ta tb where ops: "xlog1py_operands a b = Inr (ta, tb)" by blast
  note v = xlog1py_operands_values [OF ops, of idx]
  from v assms(2) have s: "broadcast_shapes (shape ta) (shape tb) = Some s" by simp
  from xlog1py_result_elementwise [OF s] assms(3)
  obtain r where r: "xlog1py_result ta tb = Inr r" "shape r = s"
    "data r idx =
         (if isnan (element_at tb idx) then NaN
          else if fl_eq (element_at ta idx) (Fin 0) then Fin 0
          else fl_mul (element_at ta idx) (fl_log1p (element_at tb idx)))"
    by blast
  from ops r(1) have "xlog1py' a b = Inr r" by (simp add: xlog1py'_def)
  with r(2) r(3) v show ?thesis by simp
qed

theorem xlog1py_elementwise_witness:
  "(\<exists>r. xlog1py' (TensorLike example_a) (Number NaN) = Inr r \<and> shape r = [2]
        \<and> data r [0] = NaN)
   \<and> (\<exists>r. xlog1py' (TensorLike example_a) (TensorLike example_b) = Inr r \<and> shape r = [2]
        \<and> data r [0] = Fin 0)
   \<and> (\<exists>r. xlog1py' (TensorLike example_a) (TensorLike example_b) = Inr r \<and> shape r = [2]
        \<and> data r [1] = NInf)
   \<and> (\<exists>r. xlog1py' (Number (Fin 0)) (TensorLike example_a) = Inr r \<and> shape r = [2]
        \<and> data r [1] = Fin 0)"
proof -
  have t1: "isinstance_TensorLike (TensorLike example_a) \<or> isinstance_TensorLike (Number NaN)"
    and t2: "isinstance_TensorLike (TensorLike example_a) \<or> isinstance_TensorLike (TensorLike example_b)"
    and t3: "isinstance_TensorLike (Number (Fin 0)) \<or> isinstance_TensorLike (TensorLike example_a)"
    by simp_all
  have s1: "broadcast_shapes (operand_shape (TensorLike example_a)) (operand_shape (Number NaN)) = Some [2]"
    by (simp add: example_a_def broadcast_shapes_def)
  have s2: "broadcast_shapes (operand_shape (TensorLike example_a)) (operand_shape (TensorLike example_b)) = Some [2]"
    by (simp add: example_a_def example_b_def broadcast_shapes_def)
  have s3: "broadcast_shapes (operand_shape (Number (Fin 0))) (operand_shape (TensorLike example_a)) = Some [2]"
    by (simp add: example_a_def broadcast_shapes_def)
  have v0: "valid_index [2] [0]" and v1: "valid_index [2] [1]"
    by (simp_all add: valid_index_def)
  from xlog1py_elementwise [OF t1 s1 v0]
  have 1: "\<exists>r. xlog1py' (TensorLike example_a) (Number NaN) = Inr r \<and> shape r = [2]
        \<and> data r [0] = NaN"
    by simp
  from xlog1py_elementwise [OF t2 s2 v0]
  have 2: "\<exists>r. xlog1py' (TensorLike example_a) (TensorLike example_b) = Inr r \<and> shape r = [2]
        \<and> data r [0] = Fin 0"
    by (simp add: element_at_def example_a_def example_b_def broadcast_index_def)
  from xlog1py_elementwise [OF t2 s2 v1]
  have 3: "\<exists>r. xlog1py' (TensorLike example_a) (TensorLike example_b) = Inr r \<and> shape r = [2]
        \<and> data r [1] = NInf"
    by (simp add: element_at_def example_a_def example_b_def broadcast_index_def inf_of_sign_def)
  from xlog1py_elementwise [OF t3 s3 v1]
  have 4: "\<exists>r. xlog1py' (Number (Fin 0)) (TensorLike example_a) = Inr r \<and> shape r = [2]
        \<and> data r [1] = Fin 0"
    by (simp add: element_at_def example_a_def broadcast_index_def)
  from 1 2 3 4 show ?thesis by blast
qed

text \<open>
  C8. A call of \<open>_xlog1py\<close> with two bare scalars fails, with the error of its
  assertion. With exactly one bare scalar, the scalar becomes a tensor of the other
  operand's dtype and device, and the call returns a result, of the shape of the tensor
  operand.
\<close>

theorem xlog1py_scalar_operands:
  "xlog1py' (Number x) (Number y) = Inl AssertionError
   \<and> xlog1py_operands (TensorLike a) (Number y) = Inr (a, scalar_tensor y (dtype a) (device a))
   \<and> xlog1py_operands (Number x) (TensorLike b) = Inr (scalar_tensor x (dtype b) (device b), b)
   \<and> dtype (scalar_tensor y (dtype a) (device a)) = dtype a
   \<and> device (scalar_tensor y (dtype a) (device a)) = device a
   \<and> dtype (scalar_tensor x (dtype b) (device b)) = dtype b
   \<and> device (scalar_tensor x (dtype b) (device b)) = device b
   \<and> (\<exists>r. xlog1py' (TensorLike a) (Number y) = Inr r \<and> shape r = shape a)
   \<and> (\<exists>r. xlog1py' (Number x) (TensorLike b) = Inr r \<and> shape r = shape b)"
proof -
  have 1: "broadcast_shapes (shape a) (shape (scalar_tensor y (dtype a) (device a))) = Some (shape a)"
    by (simp add: scalar_tensor_def broadcast_shapes_scalar)
  have 2: "broadcast_shapes (shape (scalar_tensor x (dtype b) (device b))) (shape b) = Some (shape b)"
    by (simp add: scalar_tensor_def broadcast_shapes_scalar)
  from xlog1py_result_elementwise [OF 1]
  have r1: "\<exists>r. xlog1py' (TensorLike a) (Number y) = Inr r \<and> shape r = shape a"
    by (auto simp: xlog1py'_def)
  from xlog1py_result_elementwise [OF 2]
  have r2: "\<exists>r. xlog1py' (Number x) (TensorLike b) = Inr r \<and> shape r = shape b"
    by (auto simp: xlog1py'_def)
  show ?thesis using r1 r2 by (simp add: xlog1py'_def scalar_tensor_def)
qed

theorem xlog1py_scalar_operands_witness:
  "xlog1py' (Number (Fin 2)) (Number (Fin 3)) = Inl AssertionError
   \<and> xlog1py_operands (TensorLike example_a) (Number (Fin 3))
       = Inr (example_a, scalar_tensor (Fin 3) torch_float32 cpu)
   \<and> (\<exists>r. xlog1py' (Number (Fin 2)) (TensorLike example_b) = Inr r \<and> shape r = [1])"
  using xlog1py_scalar_operands [of "Fin 2" "Fin 3" example_a example_b]
  by (simp add: example_a_def example_b_def)

end
